theory Spec2Isabelle
  imports Main "HOL-Library.Word" "HOL-Library.Sublist"
begin

section \<open>The otelcol.connector.spanmetrics configuration layer\<close>

text \<open>
  A shallow embedding of \<^verbatim>\<open>internal/component/otelcol/connector/spanmetrics/spanmetrics.go\<close>:
  the \<^verbatim>\<open>Arguments\<close> struct, \<^verbatim>\<open>SetToDefault\<close>, \<^verbatim>\<open>Validate\<close>, the two temporality
  mappings and \<^verbatim>\<open>Convert\<close>.
\<close>

subsection \<open>Errors and formatting\<close>

text \<open>
  A Go \<^verbatim>\<open>error\<close> built by \<^verbatim>\<open>fmt.Errorf\<close> is a value carrying its formatted message.
  A nil error is \<open>None\<close> of \<open>error option\<close>.
\<close>

datatype error = Errorf string

text \<open>
  The verb \<^verbatim>\<open>%v\<close> prints a Go \<^verbatim>\<open>int\<close> in decimal, with a leading minus sign when it is
  negative, and prints a string as it is.
\<close>

definition digit_char :: "nat \<Rightarrow> char" where
  "digit_char d = ''0123456789'' ! d"

function format_nat :: "nat \<Rightarrow> string" where
  "format_nat n =
     (if n < 10 then [digit_char n] else format_nat (n div 10) @ [digit_char (n mod 10)])"
  by pat_completeness auto
termination
  by (relation "measure (\<lambda>n. n)") auto

definition format_int :: "int \<Rightarrow> string" where
  "format_int i = (if i < 0 then CHR ''-'' # format_nat (nat (- i)) else format_nat (nat i))"

subsection \<open>Slices of strings over an explicit store\<close>

text \<open>
  \<^verbatim>\<open>ExcludeDimensions\<close> is a Go slice: a pointer into a backing array, a length and a
  capacity. Two slices that point into the same array see each other's writes, so the
  backing arrays live in a store and a slice only refers to one. A nil slice has no
  pointer, length 0 and capacity 0. Addresses are handed out in increasing order.
\<close>

type_synonym addr = nat

record store =
  arrays :: "addr \<rightharpoonup> string list"
  next_addr :: addr

record slice =
  s_ptr :: "(addr \<times> nat) option"
  s_len :: nat
  s_cap :: nat

definition nil_slice :: slice where
  "nil_slice = \<lparr>s_ptr = None, s_len = 0, s_cap = 0\<rparr>"

text \<open>The elements \<^verbatim>\<open>s[0], ..., s[len(s)-1]\<close> as the store holds them.\<close>

definition read_slice :: "store \<Rightarrow> slice \<Rightarrow> string list" where
  "read_slice h s =
     (case s_ptr s of
        None \<Rightarrow> []
      | Some (a, off) \<Rightarrow>
          (case arrays h a of
             None \<Rightarrow> []
           | Some arr \<Rightarrow> take (s_len s) (drop off arr)))"

text \<open>
  \<^verbatim>\<open>s[i] = v\<close>: an index outside \<^verbatim>\<open>0 <= i < len(s)\<close> panics (\<open>None\<close>), otherwise the
  cell of the backing array is overwritten.
\<close>

definition write_slice :: "store \<Rightarrow> slice \<Rightarrow> nat \<Rightarrow> string \<Rightarrow> store option" where
  "write_slice h s i v =
     (if i < s_len s then
        (case s_ptr s of
           None \<Rightarrow> None
         | Some (a, off) \<Rightarrow>
             (case arrays h a of
                None \<Rightarrow> None
              | Some arr \<Rightarrow> Some (h\<lparr>arrays := (arrays h)(a \<mapsto> arr[off + i := v])\<rparr>)))
      else None)"

text \<open>
  \<^verbatim>\<open>append(s, vs...)\<close>: when the elements fit into the capacity they are written behind
  the slice's last element, in its own backing array; otherwise a new array is allocated
  and receives the old elements followed by the new ones. The new capacity is the needed
  length (the Go runtime may round it up; nothing here reads it).
\<close>

definition append_slice :: "store \<Rightarrow> slice \<Rightarrow> string list \<Rightarrow> slice \<times> store" where
  "append_slice h s vs =
     (let n = s_len s + length vs in
      if n \<le> s_cap s then
        (case s_ptr s of
           None \<Rightarrow> (s, h)
         | Some (a, off) \<Rightarrow>
             (case arrays h a of
                None \<Rightarrow> (s, h)
              | Some arr \<Rightarrow>
                  (s\<lparr>s_len := n\<rparr>,
                   h\<lparr>arrays := (arrays h)(a \<mapsto>
                        take (off + s_len s) arr @ vs @ drop (off + n) arr)\<rparr>)))
      else
        (let a = next_addr h in
         (\<lparr>s_ptr = Some (a, 0), s_len = n, s_cap = n\<rparr>,
          \<lparr>arrays = (arrays h)(a \<mapsto> read_slice h s @ vs), next_addr = Suc a\<rparr>)))"

text \<open>
  A store is well formed when every allocated address lies below \<open>next_addr\<close>; a slice is
  valid in a store when it is nil, or points into an allocated array that holds its whole
  capacity.
\<close>

definition store_ok :: "store \<Rightarrow> bool" where
  "store_ok h = (dom (arrays h) \<subseteq> {..< next_addr h})"

definition slice_ok :: "store \<Rightarrow> slice \<Rightarrow> bool" where
  "slice_ok h s =
     (case s_ptr s of
        None \<Rightarrow> s_len s = 0 \<and> s_cap s = 0
      | Some (a, off) \<Rightarrow>
          (case arrays h a of
             None \<Rightarrow> False
           | Some arr \<Rightarrow> s_len s \<le> s_cap s \<and> off + s_cap s \<le> length arr))"

subsection \<open>The configuration types\<close>

text \<open>
  Modelled from the spec: the type \<^verbatim>\<open>Dimension\<close> and its method \<^verbatim>\<open>Convert\<close> are declared
  in another file of the package. The spec describes a dimension descriptor as a name
  with an optional default value, translated into the engine's dimension shape.
\<close>

record Dimension =
  name :: string
  dflt :: "string option"

text \<open>The engine's \<^verbatim>\<open>spanmetricsconnector.Dimension\<close>.\<close>

record otel_Dimension =
  otel_Name :: string
  otel_Default :: "string option"

text \<open>
  Modelled from the spec: \<^verbatim>\<open>Dimension.Convert\<close> (not in this file) carries the name and
  the optional default over into the engine's dimension.
\<close>

definition Dimension_Convert :: "Dimension \<Rightarrow> otel_Dimension" where
  "Dimension_Convert d = \<lparr>otel_Name = name d, otel_Default = dflt d\<rparr>"

text \<open>
  Go's \<^verbatim>\<open>int\<close> (on 64-bit targets) and \<^verbatim>\<open>time.Duration\<close> (an \<^verbatim>\<open>int64\<close> of nanoseconds)
  are 64-bit words read as signed. The types \<^verbatim>\<open>HistogramConfig\<close> and \<^verbatim>\<open>ExemplarsConfig\<close>
  are declared elsewhere and stay type parameters \<open>'h\<close> and \<open>'e\<close>; \<open>'o\<close> is the type
  \<^verbatim>\<open>otelcol.ConsumerArguments\<close> that \<^verbatim>\<open>Output\<close> points to. \<^verbatim>\<open>Dimensions\<close> is only
  iterated over, so it is the list of its elements; \<^verbatim>\<open>ExcludeDimensions\<close> is copied by
  \<^verbatim>\<open>Convert\<close> and is a slice over the store.
\<close>

type_synonym go_int = "64 word"
type_synonym Duration = "64 word"

definition Second :: Duration where
  "Second = 1000000000"

record ('h, 'e, 'o) Arguments =
  Dimensions :: "Dimension list"
  ExcludeDimensions :: slice
  DimensionsCacheSize :: go_int
  AggregationTemporality :: string
  Histogram :: 'h
  MetricsFlushInterval :: Duration
  Namespace :: string
  Exemplars :: 'e
  Output :: "'o option"

definition AggregationTemporalityCumulative :: string where
  "AggregationTemporalityCumulative = ''CUMULATIVE''"

definition AggregationTemporalityDelta :: string where
  "AggregationTemporalityDelta = ''DELTA''"

subsection \<open>Defaults\<close>

text \<open>
  \<^verbatim>\<open>DefaultArguments\<close> names three fields; the others have the zero value of their type.
  The zero values of the two structs declared elsewhere are the parameters \<open>hzero\<close> and
  \<open>ezero\<close>. It is a package variable that this file never assigns to, hence a constant.
\<close>

definition DefaultArguments :: "'h \<Rightarrow> 'e \<Rightarrow> ('h, 'e, 'o) Arguments" where
  "DefaultArguments hzero ezero =
     \<lparr>Dimensions = [],
      ExcludeDimensions = nil_slice,
      DimensionsCacheSize = 1000,
      AggregationTemporality = AggregationTemporalityCumulative,
      Histogram = hzero,
      MetricsFlushInterval = 15 * Second,
      Namespace = [],
      Exemplars = ezero,
      Output = None\<rparr>"

text \<open>\<^verbatim>\<open>*args = DefaultArguments\<close>: the receiver is replaced as a whole.\<close>

definition SetToDefault :: "'h \<Rightarrow> 'e \<Rightarrow> ('h, 'e, 'o) Arguments \<Rightarrow> ('h, 'e, 'o) Arguments" where
  "SetToDefault hzero ezero args = DefaultArguments hzero ezero"

subsection \<open>Validation\<close>

definition Validate :: "('h, 'e, 'o) Arguments \<Rightarrow> error option" where
  "Validate args =
     (if sint (DimensionsCacheSize args) \<le> 0 then
        Some (Errorf (''invalid cache size: '' @ format_int (sint (DimensionsCacheSize args))
          @ '', the maximum number of the items in the cache should be positive''))
      else if sint (MetricsFlushInterval args) \<le> 0 then
        Some (Errorf ''metrics_flush_interval must be greater than 0'')
      else if AggregationTemporality args = AggregationTemporalityCumulative
            \<or> AggregationTemporality args = AggregationTemporalityDelta then
        None
      else
        Some (Errorf (''invalid aggregation_temporality: '' @ AggregationTemporality args)))"

subsection \<open>The temporality mappings\<close>

text \<open>The Go function returns a pair: the engine's string and an error, one of them empty.\<close>

definition convertAggregationTemporality :: "string \<Rightarrow> string \<times> error option" where
  "convertAggregationTemporality temporality =
     (if temporality = AggregationTemporalityCumulative then
        (''AGGREGATION_TEMPORALITY_CUMULATIVE'', None)
      else if temporality = AggregationTemporalityDelta then
        (''AGGREGATION_TEMPORALITY_DELTA'', None)
      else
        ([], Some (Errorf (''invalid aggregation_temporality: '' @ temporality))))"

definition FromOTelAggregationTemporality :: "string \<Rightarrow> string" where
  "FromOTelAggregationTemporality temporality =
     (if temporality = ''AGGREGATION_TEMPORALITY_DELTA'' then AggregationTemporalityDelta
      else if temporality = ''AGGREGATION_TEMPORALITY_CUMULATIVE'' then
        AggregationTemporalityCumulative
      else [])"

subsection \<open>Conversion to the engine's configuration\<close>

text \<open>
  The fields of \<^verbatim>\<open>spanmetricsconnector.Config\<close> that \<^verbatim>\<open>Convert\<close> sets. \<open>'hc\<close> and \<open>'ec\<close> are
  the engine's histogram and exemplars configurations.
\<close>

record ('hc, 'ec) Config =
  cfg_Dimensions :: "otel_Dimension list"
  cfg_ExcludeDimensions :: slice
  cfg_DimensionsCacheSize :: go_int
  cfg_AggregationTemporality :: string
  cfg_Histogram :: 'hc
  cfg_MetricsFlushInterval :: Duration
  cfg_Namespace :: string
  cfg_Exemplars :: 'ec

text \<open>
  The loop \<^verbatim>\<open>for _, d := range args.Dimensions { dimensions = append(dimensions, d.Convert()) }\<close>
  with the slice built so far as accumulator.
\<close>

fun convert_dimensions :: "Dimension list \<Rightarrow> otel_Dimension list \<Rightarrow> otel_Dimension list" where
  "convert_dimensions [] dimensions = dimensions"
| "convert_dimensions (d # ds) dimensions =
     convert_dimensions ds (dimensions @ [Dimension_Convert d])"

text \<open>
  \<^verbatim>\<open>HistogramConfig.Convert\<close> and \<^verbatim>\<open>ExemplarsConfig.Convert\<close> are declared elsewhere: they
  are the parameters \<open>hconv\<close> (an error, or the converted histogram that the returned
  pointer refers to) and \<open>econv\<close>. The result is Go's pair of a configuration (\<open>None\<close>
  for nil) and an error (\<open>None\<close> for nil), together with the store after the call.
\<close>

definition Convert ::
  "('h \<Rightarrow> error + 'hc) \<Rightarrow> ('e \<Rightarrow> 'ec) \<Rightarrow> store \<Rightarrow> ('h, 'e, 'o) Arguments
     \<Rightarrow> (('hc, 'ec) Config option \<times> error option) \<times> store" where
  "Convert hconv econv h args =
     (let dimensions = convert_dimensions (Dimensions args) [] in
      case hconv (Histogram args) of
        Inl err \<Rightarrow> ((None, Some err), h)
      | Inr histogram \<Rightarrow>
          (case convertAggregationTemporality (AggregationTemporality args) of
             (_, Some err) \<Rightarrow> ((None, Some err), h)
           | (aggregationTemporality, None) \<Rightarrow>
               (case append_slice h nil_slice (read_slice h (ExcludeDimensions args)) of
                  (excludeDimensions, h') \<Rightarrow>
                    ((Some \<lparr>cfg_Dimensions = dimensions,
                            cfg_ExcludeDimensions = excludeDimensions,
                            cfg_DimensionsCacheSize = DimensionsCacheSize args,
                            cfg_AggregationTemporality = aggregationTemporality,
                            cfg_Histogram = histogram,
                            cfg_MetricsFlushInterval = MetricsFlushInterval args,
                            cfg_Namespace = Namespace args,
                            cfg_Exemplars = econv (Exemplars args)\<rparr>,
                      None), h'))))"

subsection \<open>Example inputs\<close>

text \<open>
  Concrete inputs for evaluating the functions above. The histogram and exemplars
  configurations carry no data here (\<open>unit\<close>); \<open>hconv_ok\<close> is a histogram conversion that
  succeeds, \<open>hconv_fails\<close> one that fails.
\<close>

definition hconv_ok :: "unit \<Rightarrow> error + unit" where
  "hconv_ok hist = Inr ()"

definition hconv_fails :: "unit \<Rightarrow> error + unit" where
  "hconv_fails hist = Inl (Errorf ''bad histogram'')"

definition econv_id :: "unit \<Rightarrow> unit" where
  "econv_id ex = ()"

definition default_args :: "(unit, unit, unit) Arguments" where
  "default_args = DefaultArguments () ()"

definition empty_store :: store where
  "empty_store = \<lparr>arrays = Map.empty, next_addr = 0\<rparr>"

text \<open>A store with one array of three strings, and a slice of its first two.\<close>

definition example_store :: store where
  "example_store = \<lparr>arrays = [0 \<mapsto> [''a'', ''b'', ''c'']], next_addr = 1\<rparr>"

definition example_slice :: slice where
  "example_slice = \<lparr>s_ptr = Some (0, 0), s_len = 2, s_cap = 3\<rparr>"

section \<open>Properties\<close>

lemmas temporality_names = AggregationTemporalityCumulative_def AggregationTemporalityDelta_def

subsection \<open>Validation\<close>

text \<open>
  C1: \<^verbatim>\<open>Validate\<close> returns no error exactly when the cache size is positive, the flush
  interval is positive and the temporality is one of the strings \<^verbatim>\<open>CUMULATIVE\<close> and
  \<^verbatim>\<open>DELTA\<close>; it returns an error exactly when one of the three constraints is violated.
\<close>

theorem Validate_succeeds_iff:
  "(Validate args = None \<longleftrightarrow>
      0 < sint (DimensionsCacheSize args) \<and> 0 < sint (MetricsFlushInterval args)
      \<and> AggregationTemporality args \<in> {''CUMULATIVE'', ''DELTA''})
   \<and> ((\<exists>err. Validate args = Some err) \<longleftrightarrow>
      \<not> (0 < sint (DimensionsCacheSize args) \<and> 0 < sint (MetricsFlushInterval args)
         \<and> AggregationTemporality args \<in> {''CUMULATIVE'', ''DELTA''}))"
  by (auto simp: Validate_def temporality_names)

subsection \<open>The temporality mappings\<close>

text \<open>
  C4: for \<open>x\<close> one of \<^verbatim>\<open>CUMULATIVE\<close> and \<^verbatim>\<open>DELTA\<close>, the forward mapping succeeds and the
  reverse mapping takes its result back to \<open>x\<close>.
\<close>

theorem temporality_round_trip:
  "x \<in> {''CUMULATIVE'', ''DELTA''} \<Longrightarrow>
     snd (convertAggregationTemporality x) = None
     \<and> FromOTelAggregationTemporality (fst (convertAggregationTemporality x)) = x"
  by (auto simp: convertAggregationTemporality_def FromOTelAggregationTemporality_def
      temporality_names)

theorem temporality_round_trip_witness:
  "''DELTA'' \<in> {''CUMULATIVE'', ''DELTA''}
   \<and> convertAggregationTemporality ''DELTA'' = (''AGGREGATION_TEMPORALITY_DELTA'', None)
   \<and> FromOTelAggregationTemporality (fst (convertAggregationTemporality ''DELTA'')) = ''DELTA''
   \<and> FromOTelAggregationTemporality (fst (convertAggregationTemporality ''CUMULATIVE''))
       = ''CUMULATIVE''"
  using temporality_round_trip [of "''DELTA''"] temporality_round_trip [of "''CUMULATIVE''"]
  by (simp add: convertAggregationTemporality_def temporality_names)

text \<open>
  C5: the forward mapping returns an error (and the empty string) for every string other
  than \<^verbatim>\<open>CUMULATIVE\<close> and \<^verbatim>\<open>DELTA\<close>, and only for those; the reverse mapping is a total
  function to strings that returns the empty string for every string other than the two
  engine names.
\<close>

theorem temporality_mappings_asymmetric:
  "(x \<notin> {''CUMULATIVE'', ''DELTA''} \<longrightarrow>
      convertAggregationTemporality x
        = ([], Some (Errorf (''invalid aggregation_temporality: '' @ x))))
   \<and> (x \<in> {''CUMULATIVE'', ''DELTA''} \<longrightarrow> snd (convertAggregationTemporality x) = None)
   \<and> (y \<notin> {''AGGREGATION_TEMPORALITY_CUMULATIVE'', ''AGGREGATION_TEMPORALITY_DELTA''} \<longrightarrow>
      FromOTelAggregationTemporality y = [])"
  by (auto simp: convertAggregationTemporality_def FromOTelAggregationTemporality_def
      temporality_names)

theorem temporality_mappings_asymmetric_witness:
  "''delta'' \<notin> {''CUMULATIVE'', ''DELTA''}
   \<and> convertAggregationTemporality ''delta''
        = ([], Some (Errorf ''invalid aggregation_temporality: delta''))
   \<and> ''CUMULATIVE'' \<in> {''CUMULATIVE'', ''DELTA''}
   \<and> snd (convertAggregationTemporality ''CUMULATIVE'') = None
   \<and> ''CUMULATIVE'' \<notin> {''AGGREGATION_TEMPORALITY_CUMULATIVE'', ''AGGREGATION_TEMPORALITY_DELTA''}
   \<and> FromOTelAggregationTemporality ''CUMULATIVE'' = []"
  using temporality_mappings_asymmetric [of "''delta''" "''CUMULATIVE''"]
    temporality_mappings_asymmetric [of "''CUMULATIVE''" "''CUMULATIVE''"]
  by simp

subsection \<open>Defaults\<close>

text \<open>
  C6: whatever the receiver held, after \<^verbatim>\<open>SetToDefault\<close> it is the baseline: cache size
  1000, temporality \<^verbatim>\<open>CUMULATIVE\<close>, flush interval 15 seconds (15000000000 nanoseconds),
  and the zero value in every other field: no dimensions, a nil exclude list, the zero
  histogram and exemplars, the empty namespace and a nil output.
\<close>

theorem SetToDefault_baseline:
  "SetToDefault hzero ezero args =
     \<lparr>Dimensions = [],
      ExcludeDimensions = \<lparr>s_ptr = None, s_len = 0, s_cap = 0\<rparr>,
      DimensionsCacheSize = 1000,
      AggregationTemporality = ''CUMULATIVE'',
      Histogram = hzero,
      MetricsFlushInterval = 15000000000,
      Namespace = [],
      Exemplars = ezero,
      Output = None\<rparr>
   \<and> sint (DimensionsCacheSize (SetToDefault hzero ezero args)) = 1000
   \<and> sint (MetricsFlushInterval (SetToDefault hzero ezero args)) = 15 * 1000000000"
  by (simp add: SetToDefault_def DefaultArguments_def nil_slice_def Second_def
      temporality_names)

text \<open>C7: \<^verbatim>\<open>Validate\<close> right after \<^verbatim>\<open>SetToDefault\<close> returns no error, whatever the receiver held.\<close>

theorem SetToDefault_then_Validate:
  "Validate (SetToDefault hzero ezero args) = None"
  by (simp add: Validate_def SetToDefault_def DefaultArguments_def Second_def
      temporality_names)

subsection \<open>The messages of Validate\<close>

lemma format_int_0: "format_int 0 = ''0''"
  by (simp add: format_int_def digit_char_def)

text \<open>
  C9 as stated fails: with a cache size of 0 and the temporality \<^verbatim>\<open>delta\<close>, the first check
  returns the cache-size message, which does not contain \<^verbatim>\<open>delta\<close>.
\<close>

theorem Validate_message_counterexample:
  "AggregationTemporality
     ((DefaultArguments () ())\<lparr>DimensionsCacheSize := 0, AggregationTemporality := ''delta''\<rparr>
        :: (unit, unit, unit) Arguments)
     \<notin> {''CUMULATIVE'', ''DELTA''}
   \<and> Validate
     ((DefaultArguments () ())\<lparr>DimensionsCacheSize := 0, AggregationTemporality := ''delta''\<rparr>
        :: (unit, unit, unit) Arguments)
     = Some (Errorf
         ''invalid cache size: 0, the maximum number of the items in the cache should be positive'')
   \<and> \<not> sublist ''delta''
         ''invalid cache size: 0, the maximum number of the items in the cache should be positive''"
  by (simp add: Validate_def DefaultArguments_def format_int_0 sublist_Cons_right)

text \<open>
  C9, amended: when the cache size is not positive, the message of \<^verbatim>\<open>Validate\<close> contains
  the cache size in decimal; when the cache size and the flush interval are positive and
  the temporality is neither \<^verbatim>\<open>CUMULATIVE\<close> nor \<^verbatim>\<open>DELTA\<close>, the message contains the
  temporality string; defaulted arguments with the temporality set to \<^verbatim>\<open>delta\<close> fail with
  the message \<^verbatim>\<open>invalid aggregation_temporality: delta\<close>.
\<close>

theorem Validate_message_names_value:
  "(sint (DimensionsCacheSize args) \<le> 0 \<longrightarrow>
      (\<exists>msg. Validate args = Some (Errorf msg)
         \<and> sublist (format_int (sint (DimensionsCacheSize args))) msg))
   \<and> (0 < sint (DimensionsCacheSize args) \<and> 0 < sint (MetricsFlushInterval args)
       \<and> AggregationTemporality args \<notin> {''CUMULATIVE'', ''DELTA''} \<longrightarrow>
      (\<exists>msg. Validate args = Some (Errorf msg) \<and> sublist (AggregationTemporality args) msg))
   \<and> Validate ((SetToDefault hzero ezero args)\<lparr>AggregationTemporality := ''delta''\<rparr>)
       = Some (Errorf ''invalid aggregation_temporality: delta'')"
proof (intro conjI impI)
  assume "sint (DimensionsCacheSize args) \<le> 0"
  then have "Validate args = Some (Errorf (''invalid cache size: ''
      @ format_int (sint (DimensionsCacheSize args))
      @ '', the maximum number of the items in the cache should be positive''))"
    by (simp add: Validate_def)
  moreover have "sublist (format_int (sint (DimensionsCacheSize args)))
     (''invalid cache size: '' @ format_int (sint (DimensionsCacheSize args))
      @ '', the maximum number of the items in the cache should be positive'')"
    by (rule sublist_appendI)
  ultimately show "\<exists>msg. Validate args = Some (Errorf msg)
      \<and> sublist (format_int (sint (DimensionsCacheSize args))) msg"
    by blast
next
  assume "0 < sint (DimensionsCacheSize args) \<and> 0 < sint (MetricsFlushInterval args)
    \<and> AggregationTemporality args \<notin> {''CUMULATIVE'', ''DELTA''}"
  then have "Validate args
      = Some (Errorf (''invalid aggregation_temporality: '' @ AggregationTemporality args))"
    by (simp add: Validate_def temporality_names)
  moreover have "sublist (AggregationTemporality args)
     (''invalid aggregation_temporality: '' @ AggregationTemporality args)"
    by (rule sublist_append_leftI)
  ultimately show
    "\<exists>msg. Validate args = Some (Errorf msg) \<and> sublist (AggregationTemporality args) msg"
    by blast
next
  show "Validate ((SetToDefault hzero ezero args)\<lparr>AggregationTemporality := ''delta''\<rparr>)
      = Some (Errorf ''invalid aggregation_temporality: delta'')"
    by (simp add: Validate_def SetToDefault_def DefaultArguments_def Second_def
        temporality_names)
qed

theorem Validate_message_names_value_witness:
  "sint (DimensionsCacheSize
      ((DefaultArguments () ())\<lparr>DimensionsCacheSize := - 5\<rparr> :: (unit, unit, unit) Arguments)) \<le> 0
   \<and> (\<exists>msg. Validate
         ((DefaultArguments () ())\<lparr>DimensionsCacheSize := - 5\<rparr> :: (unit, unit, unit) Arguments)
           = Some (Errorf msg)
         \<and> sublist ''-5'' msg)
   \<and> 0 < sint (DimensionsCacheSize
      ((DefaultArguments () ())\<lparr>AggregationTemporality := ''delta''\<rparr> :: (unit, unit, unit) Arguments))
   \<and> 0 < sint (MetricsFlushInterval
      ((DefaultArguments () ())\<lparr>AggregationTemporality := ''delta''\<rparr> :: (unit, unit, unit) Arguments))
   \<and> AggregationTemporality
      ((DefaultArguments () ())\<lparr>AggregationTemporality := ''delta''\<rparr> :: (unit, unit, unit) Arguments)
       \<notin> {''CUMULATIVE'', ''DELTA''}
   \<and> (\<exists>msg. Validate
         ((DefaultArguments () ())\<lparr>AggregationTemporality := ''delta''\<rparr> :: (unit, unit, unit) Arguments)
           = Some (Errorf msg)
         \<and> sublist ''delta'' msg)"
  using Validate_message_names_value
    [of "(DefaultArguments () ())\<lparr>DimensionsCacheSize := - 5\<rparr> :: (unit, unit, unit) Arguments" "()" "()"]
    Validate_message_names_value
    [of "(DefaultArguments () ())\<lparr>AggregationTemporality := ''delta''\<rparr> :: (unit, unit, unit) Arguments" "()" "()"]
  by (simp add: DefaultArguments_def Second_def format_int_def digit_char_def)

subsection \<open>Conversion\<close>

lemma convert_dimensions_map:
  "convert_dimensions ds acc = acc @ map Dimension_Convert ds"
  by (induction ds arbitrary: acc) simp_all

lemma convertAggregationTemporality_valid:
  "t \<in> {''CUMULATIVE'', ''DELTA''} \<Longrightarrow> \<exists>s. convertAggregationTemporality t = (s, None)"
  by (auto simp: convertAggregationTemporality_def temporality_names)

lemma convertAggregationTemporality_invalid:
  "t \<notin> {''CUMULATIVE'', ''DELTA''} \<Longrightarrow>
     convertAggregationTemporality t
       = ([], Some (Errorf (''invalid aggregation_temporality: '' @ t)))"
  by (auto simp: convertAggregationTemporality_def temporality_names)

lemma Convert_histogram_error:
  "hconv (Histogram args) = Inl err \<Longrightarrow> Convert hconv econv h args = ((None, Some err), h)"
  by (simp add: Convert_def)

lemma Convert_temporality_error:
  "hconv (Histogram args) = Inr hc \<Longrightarrow> AggregationTemporality args \<notin> {''CUMULATIVE'', ''DELTA''} \<Longrightarrow>
     Convert hconv econv h args
       = ((None, Some (Errorf (''invalid aggregation_temporality: '' @ AggregationTemporality args))), h)"
  by (simp add: Convert_def convertAggregationTemporality_invalid)

lemma Convert_success:
  assumes "hconv (Histogram args) = Inr hc"
    and "AggregationTemporality args \<in> {''CUMULATIVE'', ''DELTA''}"
  shows "Convert hconv econv h args =
     ((Some \<lparr>cfg_Dimensions = map Dimension_Convert (Dimensions args),
             cfg_ExcludeDimensions =
               fst (append_slice h nil_slice (read_slice h (ExcludeDimensions args))),
             cfg_DimensionsCacheSize = DimensionsCacheSize args,
             cfg_AggregationTemporality =
               fst (convertAggregationTemporality (AggregationTemporality args)),
             cfg_Histogram = hc,
             cfg_MetricsFlushInterval = MetricsFlushInterval args,
             cfg_Namespace = Namespace args,
             cfg_Exemplars = econv (Exemplars args)\<rparr>, None),
      snd (append_slice h nil_slice (read_slice h (ExcludeDimensions args))))"
proof -
  obtain s where "convertAggregationTemporality (AggregationTemporality args) = (s, None)"
    using convertAggregationTemporality_valid [OF assms(2)] by blast
  with assms(1) show ?thesis
    by (simp add: Convert_def convert_dimensions_map split: prod.splits)
qed

lemmas example_defs = hconv_ok_def hconv_fails_def econv_id_def default_args_def
  empty_store_def example_store_def example_slice_def DefaultArguments_def Second_def

text \<open>
  C2 as stated fails: \<^verbatim>\<open>Validate\<close> never reads the histogram, so arguments can pass it
  while their histogram does not convert. With the two dimensions \<^verbatim>\<open>http.method\<close> and
  \<^verbatim>\<open>http.status_code\<close> on defaulted arguments and a histogram conversion that fails,
  \<^verbatim>\<open>Validate\<close> returns no error and \<^verbatim>\<open>Convert\<close> returns a nil configuration with the
  histogram's error: there is no dimension sequence at all.
\<close>

theorem Convert_keeps_dimensions_counterexample:
  "Validate (default_args\<lparr>Dimensions :=
       [\<lparr>name = ''http.method'', dflt = None\<rparr>,
        \<lparr>name = ''http.status_code'', dflt = Some ''200''\<rparr>]\<rparr>) = None
   \<and> Convert hconv_fails econv_id empty_store (default_args\<lparr>Dimensions :=
       [\<lparr>name = ''http.method'', dflt = None\<rparr>,
        \<lparr>name = ''http.status_code'', dflt = Some ''200''\<rparr>]\<rparr>)
     = ((None, Some (Errorf ''bad histogram'')), empty_store)"
  by (simp add: Validate_def Convert_def example_defs temporality_names)

text \<open>
  C2, amended: for arguments that pass \<^verbatim>\<open>Validate\<close> and whose histogram converts,
  \<^verbatim>\<open>Convert\<close> returns a configuration whose dimensions are the converted dimensions of the
  arguments: as many, in the same order, each with the name and the default of its source.
\<close>

theorem Convert_keeps_dimensions:
  assumes "Validate args = None" and "hconv (Histogram args) = Inr hc"
  shows "\<exists>cfg. fst (Convert hconv econv h args) = (Some cfg, None)
     \<and> cfg_Dimensions cfg = map Dimension_Convert (Dimensions args)
     \<and> length (cfg_Dimensions cfg) = length (Dimensions args)
     \<and> (\<forall>i < length (Dimensions args).
          otel_Name (cfg_Dimensions cfg ! i) = name (Dimensions args ! i)
          \<and> otel_Default (cfg_Dimensions cfg ! i) = dflt (Dimensions args ! i))"
proof -
  have "AggregationTemporality args \<in> {''CUMULATIVE'', ''DELTA''}"
    using assms(1) by (auto simp: Validate_def temporality_names split: if_splits)
  from Convert_success [where hconv = hconv and args = args and econv = econv and h = h, OF assms(2) this]
  show ?thesis
    by (simp add: Dimension_Convert_def)
qed

theorem Convert_keeps_dimensions_witness:
  "Validate (default_args\<lparr>Dimensions :=
       [\<lparr>name = ''http.method'', dflt = None\<rparr>,
        \<lparr>name = ''http.status_code'', dflt = Some ''200''\<rparr>]\<rparr>) = None
   \<and> hconv_ok (Histogram (default_args\<lparr>Dimensions :=
       [\<lparr>name = ''http.method'', dflt = None\<rparr>,
        \<lparr>name = ''http.status_code'', dflt = Some ''200''\<rparr>]\<rparr>)) = Inr ()
   \<and> (\<exists>cfg. fst (Convert hconv_ok econv_id empty_store (default_args\<lparr>Dimensions :=
          [\<lparr>name = ''http.method'', dflt = None\<rparr>,
           \<lparr>name = ''http.status_code'', dflt = Some ''200''\<rparr>]\<rparr>)) = (Some cfg, None)
        \<and> cfg_Dimensions cfg =
          [\<lparr>otel_Name = ''http.method'', otel_Default = None\<rparr>,
           \<lparr>otel_Name = ''http.status_code'', otel_Default = Some ''200''\<rparr>])"
proof -
  let ?args = "default_args\<lparr>Dimensions :=
       [\<lparr>name = ''http.method'', dflt = None\<rparr>,
        \<lparr>name = ''http.status_code'', dflt = Some ''200''\<rparr>]\<rparr>"
  have valid: "Validate ?args = None"
    by (simp add: Validate_def example_defs temporality_names)
  have hist: "hconv_ok (Histogram ?args) = Inr ()"
    by (simp add: hconv_ok_def)
  from Convert_keeps_dimensions
    [where hconv = hconv_ok and args = ?args and econv = econv_id and h = empty_store,
      OF valid hist]
  have "\<exists>cfg. fst (Convert hconv_ok econv_id empty_store ?args) = (Some cfg, None)
        \<and> cfg_Dimensions cfg =
          [\<lparr>otel_Name = ''http.method'', otel_Default = None\<rparr>,
           \<lparr>otel_Name = ''http.status_code'', otel_Default = Some ''200''\<rparr>]"
    by (auto simp: Dimension_Convert_def)
  with valid hist show ?thesis
    by blast
qed

text \<open>
  C3: when the histogram conversion fails, \<^verbatim>\<open>Convert\<close> returns that error and a nil
  configuration; when the temporality is neither \<^verbatim>\<open>CUMULATIVE\<close> nor \<^verbatim>\<open>DELTA\<close>, \<^verbatim>\<open>Convert\<close>
  returns an error and a nil configuration, the error being the histogram's when the
  histogram conversion fails (it runs first) and otherwise the one the temporality
  mapping returned; in both cases the store is untouched. The configuration is nil
  exactly when the error is not.
\<close>

theorem Convert_failure:
  "(\<forall>err. hconv (Histogram args) = Inl err \<longrightarrow>
      Convert hconv econv h args = ((None, Some err), h))
   \<and> (AggregationTemporality args \<notin> {''CUMULATIVE'', ''DELTA''} \<longrightarrow>
      (\<exists>err. Convert hconv econv h args = ((None, Some err), h)
         \<and> (hconv (Histogram args) = Inl err
            \<or> (\<exists>hc. hconv (Histogram args) = Inr hc)
              \<and> convertAggregationTemporality (AggregationTemporality args) = ([], Some err))))
   \<and> (fst (fst (Convert hconv econv h args)) = None
        \<longleftrightarrow> snd (fst (Convert hconv econv h args)) \<noteq> None)"
proof (intro conjI allI impI)
  fix err assume "hconv (Histogram args) = Inl err"
  then show "Convert hconv econv h args = ((None, Some err), h)"
    by (rule Convert_histogram_error)
next
  assume bad: "AggregationTemporality args \<notin> {''CUMULATIVE'', ''DELTA''}"
  show "\<exists>err. Convert hconv econv h args = ((None, Some err), h)
         \<and> (hconv (Histogram args) = Inl err
            \<or> (\<exists>hc. hconv (Histogram args) = Inr hc)
              \<and> convertAggregationTemporality (AggregationTemporality args) = ([], Some err))"
  proof (cases "hconv (Histogram args)")
    case (Inl err)
    then show ?thesis
      by (simp add: Convert_histogram_error)
  next
    case (Inr hc)
    from Convert_temporality_error
      [where hconv = hconv and args = args and econv = econv and h = h, OF Inr bad]
    show ?thesis
      using Inr bad by (simp add: convertAggregationTemporality_invalid)
  qed
next
  show "fst (fst (Convert hconv econv h args)) = None
        \<longleftrightarrow> snd (fst (Convert hconv econv h args)) \<noteq> None"
  proof (cases "hconv (Histogram args)")
    case (Inl err)
    then show ?thesis by (simp add: Convert_histogram_error)
  next
    case (Inr hc)
    show ?thesis
    proof (cases "AggregationTemporality args \<in> {''CUMULATIVE'', ''DELTA''}")
      case True
      from Convert_success
        [where hconv = hconv and args = args and econv = econv and h = h, OF Inr True]
      show ?thesis by simp
    next
      case False
      from Convert_temporality_error
        [where hconv = hconv and args = args and econv = econv and h = h, OF Inr False]
      show ?thesis by simp
    qed
  qed
qed

theorem Convert_failure_witness:
  "hconv_fails (Histogram default_args) = Inl (Errorf ''bad histogram'')
   \<and> Convert hconv_fails econv_id example_store default_args
       = ((None, Some (Errorf ''bad histogram'')), example_store)
   \<and> AggregationTemporality (default_args\<lparr>AggregationTemporality := ''delta''\<rparr>)
       \<notin> {''CUMULATIVE'', ''DELTA''}
   \<and> Convert hconv_ok econv_id example_store
         (default_args\<lparr>AggregationTemporality := ''delta''\<rparr>)
       = ((None, Some (Errorf ''invalid aggregation_temporality: delta'')), example_store)"
  using Convert_failure [of hconv_fails default_args econv_id example_store]
    Convert_failure [of hconv_ok "default_args\<lparr>AggregationTemporality := ''delta''\<rparr>"
      econv_id example_store]
  by (simp add: hconv_fails_def hconv_ok_def convertAggregationTemporality_def
      temporality_names)

text \<open>
  C10: with a temporality of \<^verbatim>\<open>CUMULATIVE\<close> or \<^verbatim>\<open>DELTA\<close> and a histogram that converts,
  \<^verbatim>\<open>Convert\<close> succeeds whatever the cache size and the flush interval are, and hands both
  over unchanged; this includes the values that \<^verbatim>\<open>Validate\<close> rejects.
\<close>

theorem Convert_skips_numeric_checks:
  assumes "AggregationTemporality args \<in> {''CUMULATIVE'', ''DELTA''}"
    and "hconv (Histogram args) = Inr hc"
  shows "(\<exists>cfg. fst (Convert hconv econv h args) = (Some cfg, None)
       \<and> cfg_DimensionsCacheSize cfg = DimensionsCacheSize args
       \<and> cfg_MetricsFlushInterval cfg = MetricsFlushInterval args)
     \<and> (sint (DimensionsCacheSize args) \<le> 0 \<or> sint (MetricsFlushInterval args) \<le> 0
          \<longrightarrow> Validate args \<noteq> None)"
proof
  from Convert_success
    [where hconv = hconv and args = args and econv = econv and h = h, OF assms(2) assms(1)]
  show "\<exists>cfg. fst (Convert hconv econv h args) = (Some cfg, None)
       \<and> cfg_DimensionsCacheSize cfg = DimensionsCacheSize args
       \<and> cfg_MetricsFlushInterval cfg = MetricsFlushInterval args"
    by simp
  show "sint (DimensionsCacheSize args) \<le> 0 \<or> sint (MetricsFlushInterval args) \<le> 0
          \<longrightarrow> Validate args \<noteq> None"
    by (auto simp: Validate_def)
qed

theorem Convert_skips_numeric_checks_witness:
  "AggregationTemporality (default_args\<lparr>DimensionsCacheSize := 0, MetricsFlushInterval := - 1\<rparr>)
     \<in> {''CUMULATIVE'', ''DELTA''}
   \<and> hconv_ok (Histogram (default_args\<lparr>DimensionsCacheSize := 0, MetricsFlushInterval := - 1\<rparr>))
       = Inr ()
   \<and> sint (DimensionsCacheSize
        (default_args\<lparr>DimensionsCacheSize := 0, MetricsFlushInterval := - 1\<rparr>)) \<le> 0
   \<and> Validate (default_args\<lparr>DimensionsCacheSize := 0, MetricsFlushInterval := - 1\<rparr>) \<noteq> None
   \<and> (\<exists>cfg. fst (Convert hconv_ok econv_id empty_store
                 (default_args\<lparr>DimensionsCacheSize := 0, MetricsFlushInterval := - 1\<rparr>))
          = (Some cfg, None)
        \<and> cfg_DimensionsCacheSize cfg = 0
        \<and> cfg_MetricsFlushInterval cfg = - 1)"
proof -
  let ?args = "default_args\<lparr>DimensionsCacheSize := 0, MetricsFlushInterval := - 1\<rparr>"
  have temporality: "AggregationTemporality ?args \<in> {''CUMULATIVE'', ''DELTA''}"
    by (simp add: example_defs temporality_names)
  have hist: "hconv_ok (Histogram ?args) = Inr ()"
    by (simp add: hconv_ok_def)
  have size: "sint (DimensionsCacheSize ?args) \<le> 0"
    by simp
  from Convert_skips_numeric_checks
    [where hconv = hconv_ok and args = ?args and econv = econv_id and h = empty_store,
      OF temporality hist] size
  have "Validate ?args \<noteq> None"
    and "\<exists>cfg. fst (Convert hconv_ok econv_id empty_store ?args) = (Some cfg, None)
        \<and> cfg_DimensionsCacheSize cfg = 0
        \<and> cfg_MetricsFlushInterval cfg = - 1"
    by simp_all
  with temporality hist size show ?thesis
    by blast
qed

subsection \<open>The copy of the exclude list\<close>

lemma append_slice_nil:
  "append_slice h nil_slice vs =
     (if vs = [] then (nil_slice, h)
      else (\<lparr>s_ptr = Some (next_addr h, 0), s_len = length vs, s_cap = length vs\<rparr>,
            \<lparr>arrays = (arrays h)(next_addr h \<mapsto> vs), next_addr = Suc (next_addr h)\<rparr>))"
  by (simp add: append_slice_def nil_slice_def read_slice_def Let_def)

lemma write_slice_defined:
  assumes "i < s_len s" and "s_ptr s = Some (a, off)" and "arrays h a = Some arr"
  shows "write_slice h s i v = Some (h\<lparr>arrays := (arrays h)(a \<mapsto> arr[off + i := v])\<rparr>)"
  using assms by (simp add: write_slice_def)

lemma read_after_write:
  assumes "i < s_len s" and "s_ptr s = Some (a, off)" and "arrays h a = Some arr"
  shows "read_slice (h\<lparr>arrays := (arrays h)(a \<mapsto> arr[off + i := v])\<rparr>) s
     = (read_slice h s)[i := v]"
  using assms by (simp add: read_slice_def drop_update_swap take_update_swap)

lemma append_slice_other:
  assumes "append_slice h s vs = (s2, h'')" and "b \<noteq> next_addr h"
    and "\<forall>off. s_ptr s \<noteq> Some (b, off)"
  shows "arrays h'' b = arrays h b"
  using assms
  by (auto simp: append_slice_def Let_def split: if_splits option.splits prod.splits)

text \<open>What the copy \<^verbatim>\<open>append([]string(nil), s...)\<close> returns: nil for no elements, else a fresh array.\<close>

lemma copy_cases:
  assumes "store_ok h" and "slice_ok h s"
    and "append_slice h nil_slice (read_slice h s) = (c, h')"
  obtains (Empty) "read_slice h s = []" "c = nil_slice" "h' = h"
  | (Fresh) "read_slice h s \<noteq> []"
      "c = \<lparr>s_ptr = Some (next_addr h, 0), s_len = length (read_slice h s),
             s_cap = length (read_slice h s)\<rparr>"
      "h' = \<lparr>arrays = (arrays h)(next_addr h \<mapsto> read_slice h s),
              next_addr = Suc (next_addr h)\<rparr>"
      "arrays h (next_addr h) = None"
  using assms by (auto simp: append_slice_nil store_ok_def split: if_splits)

lemma slice_ok_cases:
  assumes "slice_ok h s"
  obtains (Nil) "s_ptr s = None" "s_len s = 0"
  | (Ptr) a off arr where "s_ptr s = Some (a, off)" "arrays h a = Some arr"
      "s_len s \<le> s_cap s" "off + s_cap s \<le> length arr"
  using assms by (auto simp: slice_ok_def split: option.splits)

lemma copy_independent:
  assumes ok: "store_ok h" "slice_ok h s"
    and copy: "append_slice h nil_slice (read_slice h s) = (c, h')"
  shows "read_slice h' c = read_slice h s"
    and "read_slice h' s = read_slice h s"
    and "s_ptr c = Some (a, off) \<Longrightarrow> arrays h a = None \<and> (\<forall>off'. s_ptr s \<noteq> Some (a, off'))"
    and "i < s_len s \<Longrightarrow> \<exists>h''. write_slice h' s i v = Some h''
           \<and> read_slice h'' c = read_slice h' c
           \<and> read_slice h'' s = (read_slice h' s)[i := v]"
    and "i < s_len c \<Longrightarrow> \<exists>h''. write_slice h' c i v = Some h''
           \<and> read_slice h'' s = read_slice h' s
           \<and> read_slice h'' c = (read_slice h' c)[i := v]"
    and "append_slice h' s vs = (s2, h2) \<Longrightarrow> read_slice h2 c = read_slice h' c"
proof -
  show "read_slice h' c = read_slice h s"
    using ok copy by (cases rule: copy_cases) (simp_all add: read_slice_def nil_slice_def)
  show "read_slice h' s = read_slice h s"
    using ok copy
  proof (cases rule: copy_cases)
    case Empty
    then show ?thesis by simp
  next
    case Fresh
    from ok(2) show ?thesis
      by (cases rule: slice_ok_cases) (use Fresh in \<open>auto simp: read_slice_def\<close>)
  qed
  show "arrays h a = None \<and> (\<forall>off'. s_ptr s \<noteq> Some (a, off'))" if "s_ptr c = Some (a, off)"
    using ok copy
  proof (cases rule: copy_cases)
    case Empty
    with that show ?thesis by (simp add: nil_slice_def)
  next
    case Fresh
    from ok(2) show ?thesis
      by (cases rule: slice_ok_cases) (use that Fresh in auto)
  qed
  show "\<exists>h''. write_slice h' s i v = Some h''
           \<and> read_slice h'' c = read_slice h' c
           \<and> read_slice h'' s = (read_slice h' s)[i := v]" if "i < s_len s"
    using ok(2)
  proof (cases rule: slice_ok_cases)
    case Nil
    with that show ?thesis by simp
  next
    case (Ptr b boff arr)
    from ok copy show ?thesis
    proof (cases rule: copy_cases)
      case Empty
      with Ptr that show ?thesis
        by (simp add: write_slice_defined read_after_write) (simp add: read_slice_def nil_slice_def)
    next
      case Fresh
      with Ptr have ne: "b \<noteq> next_addr h" and arr: "arrays h' b = Some arr"
        by auto
      have "read_slice (h'\<lparr>arrays := (arrays h')(b \<mapsto> arr[boff + i := v])\<rparr>) c = read_slice h' c"
        using Fresh(2) ne by (simp add: read_slice_def)
      with that Ptr(1) arr show ?thesis
        by (simp add: write_slice_defined read_after_write)
    qed
  qed
  show "\<exists>h''. write_slice h' c i v = Some h''
           \<and> read_slice h'' s = read_slice h' s
           \<and> read_slice h'' c = (read_slice h' c)[i := v]" if "i < s_len c"
    using ok copy
  proof (cases rule: copy_cases)
    case Empty
    with that show ?thesis by (simp add: nil_slice_def)
  next
    case Fresh
    let ?n = "next_addr h"
    have ptr: "s_ptr c = Some (?n, 0)" and arr: "arrays h' ?n = Some (read_slice h s)"
      using Fresh by simp_all
    let ?h2 = "h'\<lparr>arrays := (arrays h')(?n \<mapsto> (read_slice h s)[i := v])\<rparr>"
    have "write_slice h' c i v = Some ?h2"
      using write_slice_defined [OF that ptr arr, of v] by simp
    moreover have "read_slice ?h2 s = read_slice h' s"
      using ok(2) by (cases rule: slice_ok_cases) (use Fresh(4) in \<open>auto simp: read_slice_def\<close>)
    moreover have "read_slice ?h2 c = (read_slice h' c)[i := v]"
      using read_after_write [OF that ptr arr, of v] by simp
    ultimately show ?thesis
      by simp
  qed
  show "read_slice h2 c = read_slice h' c" if "append_slice h' s vs = (s2, h2)"
    using ok copy
  proof (cases rule: copy_cases)
    case Empty
    then show ?thesis by (simp add: read_slice_def nil_slice_def)
  next
    case Fresh
    have "\<forall>off. s_ptr s \<noteq> Some (next_addr h, off)"
      using ok(2) by (cases rule: slice_ok_cases) (use Fresh(4) in auto)
    moreover have "next_addr h \<noteq> next_addr h'"
      using Fresh(3) by simp
    ultimately have "arrays h2 (next_addr h) = arrays h' (next_addr h)"
      using append_slice_other [OF that] by blast
    then show ?thesis
      using Fresh(2) by (simp add: read_slice_def)
  qed
qed

text \<open>
  C8: in a well-formed store where the exclude list of the arguments is a valid slice, a
  successful \<^verbatim>\<open>Convert\<close> returns a configuration whose exclude list has the same elements
  as the one of the arguments and leaves the latter as it was. The returned slice is nil
  or points to an array that was not allocated before the call, so it shares no array
  with the arguments' slice. Afterwards, assigning to any element of the arguments' slice
  changes that slice and not the configuration's; assigning to any element of the
  configuration's slice changes that slice and not the arguments'; and appending to the
  arguments' slice does not change the configuration's.
\<close>

theorem Convert_exclude_dimensions_independent:
  assumes "store_ok h" and "slice_ok h (ExcludeDimensions args)"
    and "AggregationTemporality args \<in> {''CUMULATIVE'', ''DELTA''}"
    and "hconv (Histogram args) = Inr hc"
  shows "\<exists>cfg h'. Convert hconv econv h args = ((Some cfg, None), h')
     \<and> read_slice h' (cfg_ExcludeDimensions cfg) = read_slice h (ExcludeDimensions args)
     \<and> read_slice h' (ExcludeDimensions args) = read_slice h (ExcludeDimensions args)
     \<and> (\<forall>a off. s_ptr (cfg_ExcludeDimensions cfg) = Some (a, off) \<longrightarrow>
          arrays h a = None \<and> (\<forall>off'. s_ptr (ExcludeDimensions args) \<noteq> Some (a, off')))
     \<and> (\<forall>i v. i < s_len (ExcludeDimensions args) \<longrightarrow>
          (\<exists>h''. write_slice h' (ExcludeDimensions args) i v = Some h''
             \<and> read_slice h'' (cfg_ExcludeDimensions cfg)
                 = read_slice h' (cfg_ExcludeDimensions cfg)
             \<and> read_slice h'' (ExcludeDimensions args)
                 = (read_slice h' (ExcludeDimensions args))[i := v]))
     \<and> (\<forall>i v. i < s_len (cfg_ExcludeDimensions cfg) \<longrightarrow>
          (\<exists>h''. write_slice h' (cfg_ExcludeDimensions cfg) i v = Some h''
             \<and> read_slice h'' (ExcludeDimensions args) = read_slice h' (ExcludeDimensions args)
             \<and> read_slice h'' (cfg_ExcludeDimensions cfg)
                 = (read_slice h' (cfg_ExcludeDimensions cfg))[i := v]))
     \<and> (\<forall>vs. read_slice (snd (append_slice h' (ExcludeDimensions args) vs))
                 (cfg_ExcludeDimensions cfg)
               = read_slice h' (cfg_ExcludeDimensions cfg))"
proof -
  let ?s = "ExcludeDimensions args"
  obtain c h' where copy: "append_slice h nil_slice (read_slice h ?s) = (c, h')"
    by (cases "append_slice h nil_slice (read_slice h ?s)")
  note ind = copy_independent [OF assms(1,2) copy]
  from Convert_success
    [where hconv = hconv and args = args and econv = econv and h = h, OF assms(4) assms(3)]
    copy
  obtain cfg where conv: "Convert hconv econv h args = ((Some cfg, None), h')"
    and c: "cfg_ExcludeDimensions cfg = c"
    by simp
  have "\<forall>vs. read_slice (snd (append_slice h' ?s vs)) c = read_slice h' c"
    using ind(6) by (metis prod.collapse)
  with conv c ind(1,2) ind(3) ind(4) ind(5) show ?thesis
    by (intro exI [of _ cfg] exI [of _ h']) simp
qed

theorem Convert_exclude_dimensions_independent_witness:
  "store_ok example_store
   \<and> slice_ok example_store (ExcludeDimensions (default_args\<lparr>ExcludeDimensions := example_slice\<rparr>))
   \<and> AggregationTemporality (default_args\<lparr>ExcludeDimensions := example_slice\<rparr>)
       \<in> {''CUMULATIVE'', ''DELTA''}
   \<and> hconv_ok (Histogram (default_args\<lparr>ExcludeDimensions := example_slice\<rparr>)) = Inr ()
   \<and> read_slice example_store example_slice = [''a'', ''b'']
   \<and> (\<exists>cfg h'. Convert hconv_ok econv_id example_store
                   (default_args\<lparr>ExcludeDimensions := example_slice\<rparr>) = ((Some cfg, None), h')
        \<and> read_slice h' (cfg_ExcludeDimensions cfg) = [''a'', ''b'']
        \<and> (\<exists>h''. write_slice h' example_slice 0 ''z'' = Some h''
              \<and> read_slice h'' (cfg_ExcludeDimensions cfg) = [''a'', ''b'']
              \<and> read_slice h'' example_slice = [''z'', ''b'']))"
proof -
  let ?args = "default_args\<lparr>ExcludeDimensions := example_slice\<rparr>"
  have store: "store_ok example_store"
    by (simp add: store_ok_def example_store_def)
  have slice: "slice_ok example_store (ExcludeDimensions ?args)"
    by (simp add: slice_ok_def example_store_def example_slice_def)
  have temporality: "AggregationTemporality ?args \<in> {''CUMULATIVE'', ''DELTA''}"
    by (simp add: example_defs temporality_names)
  have hist: "hconv_ok (Histogram ?args) = Inr ()"
    by (simp add: hconv_ok_def)
  have elems: "read_slice example_store example_slice = [''a'', ''b'']"
    by (simp add: read_slice_def example_store_def example_slice_def)
  have len: "0 < s_len example_slice"
    by (simp add: example_slice_def)
  from Convert_exclude_dimensions_independent
    [where hconv = hconv_ok and args = ?args and econv = econv_id and h = example_store,
      OF store slice temporality hist]
  obtain cfg h' where conv: "Convert hconv_ok econv_id example_store ?args = ((Some cfg, None), h')"
    and same: "read_slice h' (cfg_ExcludeDimensions cfg) = read_slice example_store example_slice"
    and kept: "read_slice h' example_slice = read_slice example_store example_slice"
    and upd: "\<forall>i v. i < s_len example_slice \<longrightarrow>
          (\<exists>h''. write_slice h' example_slice i v = Some h''
             \<and> read_slice h'' (cfg_ExcludeDimensions cfg)
                 = read_slice h' (cfg_ExcludeDimensions cfg)
             \<and> read_slice h'' example_slice = (read_slice h' example_slice)[i := v])"
    by auto
  from upd len obtain h'' where "write_slice h' example_slice 0 ''z'' = Some h''"
    and "read_slice h'' (cfg_ExcludeDimensions cfg) = read_slice h' (cfg_ExcludeDimensions cfg)"
    and "read_slice h'' example_slice = (read_slice h' example_slice)[0 := ''z'']"
    by blast
  with conv same kept elems
  have "\<exists>cfg h'. Convert hconv_ok econv_id example_store ?args = ((Some cfg, None), h')
        \<and> read_slice h' (cfg_ExcludeDimensions cfg) = [''a'', ''b'']
        \<and> (\<exists>h''. write_slice h' example_slice 0 ''z'' = Some h''
              \<and> read_slice h'' (cfg_ExcludeDimensions cfg) = [''a'', ''b'']
              \<and> read_slice h'' example_slice = [''z'', ''b''])"
    by (intro exI [of _ cfg] exI [of _ h']) simp
  with store slice temporality hist elems show ?thesis
    by blast
qed

end
